theory Spec2Isabelle
  imports Main "HOL-Library.Word"
begin

section \<open>JavaScript values the client handles\<close>

subsection \<open>Numbers and their text\<close>

text \<open>
  A JavaScript number that the client computes is either \<open>NaN\<close> or the Number value of
  an integer: \<open>Num n\<close> stands for the Number closest to the integer \<open>n\<close> (exactly \<open>n\<close> up
  to \<open>2^53\<close>). The sign of zero is not modelled.
\<close>

datatype jsnum = NaN | Num int

text \<open>
  Strings are lists of 8-bit characters, which is exact for HTTP header values (byte
  strings). The white space \<open>parseInt\<close> skips is, below code 256: TAB, LF, VT, FF, CR,
  SP and NBSP.
\<close>

definition isWhiteSpace :: "char \<Rightarrow> bool" where
  "isWhiteSpace c = (c \<in> set [CHR 0x09, CHR 0x0A, CHR 0x0B, CHR 0x0C, CHR 0x0D, CHR 0x20, CHR 0xA0])"

definition isDigit :: "char \<Rightarrow> bool" where
  "isDigit c = (c \<in> set ''0123456789'')"

definition digitValue :: "char \<Rightarrow> int" where
  "digitValue c = int (of_char c) - 48"

definition digitsValue :: "string \<Rightarrow> int" where
  "digitsValue Z = foldl (\<lambda>acc c. 10 * acc + digitValue c) 0 Z"

text \<open>
  \<open>parseInt(inputString, 10)\<close>, the only radix the source passes: skip leading white
  space, read a sign, take the longest run of decimal digits; no digit gives \<open>NaN\<close>,
  and whatever follows the digits is ignored.
\<close>

definition parseInt :: "string \<Rightarrow> jsnum" where
  "parseInt inputString =
     (let S = dropWhile isWhiteSpace inputString;
          sign = (if S \<noteq> [] \<and> hd S = CHR ''-'' then - 1 else 1);
          S1 = (if S \<noteq> [] \<and> (hd S = CHR ''+'' \<or> hd S = CHR ''-'') then tl S else S);
          Z = takeWhile isDigit S1
      in if Z = [] then NaN else Num (sign * digitsValue Z))"

text \<open>
  The text of a number inside a template literal (\<open>Number::toString\<close>), for the integers
  the client prints: a status code, a timeout in milliseconds. Integers of magnitude
  \<open>10^21\<close> and more print in exponent form and are outside this definition.
\<close>

fun decimal :: "nat \<Rightarrow> string" where
  "decimal n =
     (if n < 10 then [''0123456789'' ! n]
      else decimal (n div 10) @ [''0123456789'' ! (n mod 10)])"

declare decimal.simps [simp del]

definition Number_toString :: "int \<Rightarrow> string" where
  "Number_toString i = (if i < 0 then CHR ''-'' # decimal (nat (- i)) else decimal (nat i))"

subsection \<open>Decoded JSON\<close>

text \<open>
  What \<open>response.json()\<close> can resolve to. An object is the list of its own properties
  (keys distinct, as \<open>JSON.parse\<close> leaves them). Numbers are integers here; the client
  only ever prints or stores them.
\<close>

datatype json =
    JNull
  | JBool bool
  | JNumber int
  | JString string
  | JArray "json list"
  | JObject "(string \<times> json) list"

text \<open>
  \<open>v.key\<close> for a value \<open>v\<close> that is not \<open>null\<close>, for the keys the client reads
  (\<open>error\<close>, \<open>message\<close>, \<open>code\<close>): no built-in prototype defines them, so only an
  object's own property can answer; \<open>None\<close> is \<open>undefined\<close>.
\<close>

fun member_of :: "json \<Rightarrow> string \<Rightarrow> json option" where
  "member_of (JObject props) key = map_of props key"
| "member_of _ key = None"

text \<open>\<open>v?.key\<close>: \<open>undefined\<close> when \<open>v\<close> is \<open>undefined\<close> or \<open>null\<close>.\<close>

definition optional_member :: "json option \<Rightarrow> string \<Rightarrow> json option" where
  "optional_member v key =
     (case v of None \<Rightarrow> None | Some JNull \<Rightarrow> None | Some obj \<Rightarrow> member_of obj key)"

text \<open>\<open>v ?? d\<close>: \<open>d\<close> when \<open>v\<close> is \<open>undefined\<close> or \<open>null\<close>.\<close>

definition nullish_or :: "json option \<Rightarrow> json \<Rightarrow> json" where
  "nullish_or v d = (case v of None \<Rightarrow> d | Some JNull \<Rightarrow> d | Some x \<Rightarrow> x)"

fun join :: "string \<Rightarrow> string list \<Rightarrow> string" where
  "join sep [] = []"
| "join sep [x] = x"
| "join sep (x # y # ys) = x @ sep @ join sep (y # ys)"

text \<open>
  \<open>ToString\<close>, which the \<open>Error\<close> constructor applies to its message. \<open>None\<close> is the
  \<open>TypeError\<close> it throws for an object that cannot be converted: a parsed object whose
  own property \<open>toString\<close> hides \<open>Object.prototype.toString\<close> (a JSON value is never
  callable). An array is joined with commas, \<open>null\<close> elements as the empty string.
\<close>

fun ToString :: "json \<Rightarrow> string option" where
  "ToString JNull = Some ''null''"
| "ToString (JBool b) = Some (if b then ''true'' else ''false'')"
| "ToString (JNumber n) = Some (Number_toString n)"
| "ToString (JString s) = Some s"
| "ToString (JArray xs) =
     map_option (join '','') (those (map (\<lambda>x. if x = JNull then Some [] else ToString x) xs))"
| "ToString (JObject props) =
     (if ''toString'' \<in> fst ` set props then None else Some ''[object Object]'')"

section \<open>The error classes (errors.ts)\<close>

datatype error_class =
    PixwellErrorC
  | AuthenticationErrorC
  | RateLimitErrorC
  | ValidationErrorC
  | CaptureErrorC
  | NetworkErrorC

text \<open>
  An error object: \<open>proto\<close> is the class whose prototype the constructor sets (what
  \<open>instanceof\<close> reads), the other fields are the object's properties. \<open>code\<close> is typed
  \<open>string\<close> in the source and holds, at run time, whatever the constructor was given.
\<close>

record pixwell_error =
  proto :: error_class
  name :: string
  message :: string
  code :: json
  statusCode :: "int option"
  retryAfter :: "jsnum option"
  field :: "string option"

definition PixwellError :: "string \<Rightarrow> json \<Rightarrow> int option \<Rightarrow> pixwell_error" where
  "PixwellError msg c sc =
     \<lparr>proto = PixwellErrorC, name = ''PixwellError'', message = msg, code = c,
      statusCode = sc, retryAfter = None, field = None\<rparr>"

definition AuthenticationError :: "string \<Rightarrow> pixwell_error" where
  "AuthenticationError msg =
     (PixwellError msg (JString ''AUTHENTICATION_ERROR'') (Some 401))
       \<lparr>name := ''AuthenticationError'', proto := AuthenticationErrorC\<rparr>"

definition RateLimitError :: "string \<Rightarrow> jsnum option \<Rightarrow> pixwell_error" where
  "RateLimitError msg ra =
     (PixwellError msg (JString ''RATE_LIMIT_ERROR'') (Some 429))
       \<lparr>retryAfter := ra, name := ''RateLimitError'', proto := RateLimitErrorC\<rparr>"

definition ValidationError :: "string \<Rightarrow> string option \<Rightarrow> pixwell_error" where
  "ValidationError msg fld =
     (PixwellError msg (JString ''VALIDATION_ERROR'') (Some 400))
       \<lparr>field := fld, name := ''ValidationError'', proto := ValidationErrorC\<rparr>"

definition CaptureError :: "string \<Rightarrow> pixwell_error" where
  "CaptureError msg =
     (PixwellError msg (JString ''CAPTURE_ERROR'') (Some 500))
       \<lparr>name := ''CaptureError'', proto := CaptureErrorC\<rparr>"

definition NetworkError :: "string \<Rightarrow> pixwell_error" where
  "NetworkError msg =
     (PixwellError msg (JString ''NETWORK_ERROR'') None)
       \<lparr>name := ''NetworkError'', proto := NetworkErrorC\<rparr>"

text \<open>
  A thrown value, as the \<open>catch\<close> block of \<open>request\<close> tells them apart: an instance of
  \<open>PixwellError\<close>, another \<open>Error\<close> (its name and message), or a value that is no
  \<open>Error\<close> at all.
\<close>

datatype js_exn =
    Thrown_Pixwell pixwell_error
  | Thrown_Error string string
  | Thrown_Other

section \<open>The environment: responses, timers, the transport\<close>

type_synonym byte = "8 word"

text \<open>
  The \<open>Headers\<close> object of a response, by its \<open>get\<close> method: \<open>None\<close> is \<open>null\<close>, the
  header is absent.
\<close>

type_synonym headers = "string \<rightharpoonup> string"

text \<open>
  A \<open>Response\<close>. The body is given by what reading it settles to: \<open>json_result\<close> for
  \<open>response.json()\<close> (\<open>Inl\<close>: it rejects, for instance with a \<open>SyntaxError\<close>) and
  \<open>arrayBuffer_result\<close> for \<open>response.arrayBuffer()\<close>. Both reads are taken to settle.
\<close>

record response =
  status :: int
  headers :: headers
  json_result :: "js_exn + json"
  arrayBuffer_result :: "js_exn + byte list"

definition ok :: "response \<Rightarrow> bool" where
  "ok r = (200 \<le> status r \<and> status r \<le> 299)"

datatype http_method = GET | POST

datatype response_type = json_type | arrayBuffer_type

text \<open>
  The \<open>options\<close> of \<open>request\<close>; \<open>req_method\<close> and \<open>req_body\<close> are its \<open>method\<close> and
  \<open>body\<close>.
\<close>

record request_options =
  req_method :: http_method
  req_body :: "string option"
  responseType :: response_type

text \<open>One call of \<open>fetch\<close>: the address and the \<open>init\<close> object.\<close>

record fetch_call =
  url :: string
  init_method :: http_method
  init_headers :: "(string \<times> string) list"
  init_body :: "string option"

text \<open>
  How the awaited \<open>fetch\<close> settles: with a response, with a rejection of the transport's
  own (DNS, reset, TLS), or because the timeout callback ran first and aborted it.
\<close>

datatype fetch_outcome =
    Resolves response
  | Rejects js_exn
  | Aborted

type_synonym transport = "fetch_call \<Rightarrow> fetch_outcome"

datatype event =
    SetTimeout nat int
  | ClearTimeout nat
  | TimerFired nat
  | Fetch fetch_call

text \<open>
  The part of the run-time state the client touches: the timers that are pending, the
  next timer id, and the log of what was done.
\<close>

record world =
  timers :: "nat list"
  next_timer :: nat
  events :: "event list"

definition setTimeout :: "int \<Rightarrow> world \<Rightarrow> nat \<times> world" where
  "setTimeout delay w =
     (next_timer w,
      w\<lparr>timers := next_timer w # timers w, next_timer := Suc (next_timer w),
        events := events w @ [SetTimeout (next_timer w) delay]\<rparr>)"

definition clearTimeout :: "nat \<Rightarrow> world \<Rightarrow> world" where
  "clearTimeout tid w =
     w\<lparr>timers := removeAll tid (timers w), events := events w @ [ClearTimeout tid]\<rparr>"

text \<open>A timer that runs its callback is no longer pending.\<close>

definition timer_fires :: "nat \<Rightarrow> world \<Rightarrow> world" where
  "timer_fires tid w =
     w\<lparr>timers := removeAll tid (timers w), events := events w @ [TimerFired tid]\<rparr>"

definition do_fetch :: "fetch_call \<Rightarrow> world \<Rightarrow> world" where
  "do_fetch c w = w\<lparr>events := events w @ [Fetch c]\<rparr>"

text \<open>
  Messages of the engine's own errors (the texts are V8's): reading a property of
  \<open>null\<close>, converting an object that has no usable \<open>toString\<close>, and the abort.
\<close>

definition null_property_message :: string where
  "null_property_message =
     ''Cannot read properties of null (reading '' @ [CHR 0x27] @ ''error'' @ [CHR 0x27] @ '')''"

definition not_primitive_message :: string where
  "not_primitive_message = ''Cannot convert object to primitive value''"

definition AbortError :: js_exn where
  "AbortError = Thrown_Error ''AbortError'' ''This operation was aborted''"

section \<open>The client (client.ts)\<close>

definition DEFAULT_BASE_URL :: string where
  "DEFAULT_BASE_URL = ''https://api.pixwell.dev''"

definition DEFAULT_TIMEOUT :: int where
  "DEFAULT_TIMEOUT = 60000"

text \<open>\<open>PixwellClientOptions\<close>; \<open>None\<close> is a property left out.\<close>

record PixwellClientOptions =
  opt_apiKey :: "string option"
  opt_baseUrl :: "string option"
  opt_timeout :: "int option"

record Pixwell =
  apiKey :: string
  baseUrl :: string
  timeout :: int

text \<open>\<open>s.replace(/\/$/, "")\<close>: one slash at the very end is removed.\<close>

definition strip_trailing_slash :: "string \<Rightarrow> string" where
  "strip_trailing_slash s = (if s \<noteq> [] \<and> last s = CHR ''/'' then butlast s else s)"

text \<open>
  The constructor. It is given the world only to show that it leaves it alone: the
  source calls neither \<open>fetch\<close> nor a timer there.
\<close>

definition Pixwell_constructor ::
  "PixwellClientOptions \<Rightarrow> world \<Rightarrow> (pixwell_error + Pixwell) \<times> world" where
  "Pixwell_constructor options w =
     (case opt_apiKey options of
        None \<Rightarrow> (Inl (ValidationError ''API key is required'' (Some ''apiKey'')), w)
      | Some k \<Rightarrow>
          if k = [] then (Inl (ValidationError ''API key is required'' (Some ''apiKey'')), w)
          else
            (Inr \<lparr>apiKey = k,
                  baseUrl = strip_trailing_slash
                    (case opt_baseUrl options of None \<Rightarrow> DEFAULT_BASE_URL | Some b \<Rightarrow> b),
                  timeout = (case opt_timeout options of None \<Rightarrow> DEFAULT_TIMEOUT | Some t \<Rightarrow> t)\<rparr>,
             w))"

subsection \<open>handleError\<close>

text \<open>
  \<open>errorData\<close> after the inner \<open>try\<close>: the decoded body, or the initial \<open>{}\<close> when
  \<open>response.json()\<close> rejected.
\<close>

definition errorData :: "response \<Rightarrow> json" where
  "errorData r = (case json_result r of Inl _ \<Rightarrow> JObject [] | Inr v \<Rightarrow> v)"

text \<open>The two constants \<open>message\<close> and \<open>code\<close>, for an \<open>errorData\<close> that is not \<open>null\<close>.\<close>

definition error_message :: "response \<Rightarrow> json" where
  "error_message r =
     nullish_or (optional_member (member_of (errorData r) ''error'') ''message'')
       (JString (''Request failed with status '' @ Number_toString (status r)))"

definition error_code :: "response \<Rightarrow> json" where
  "error_code r =
     nullish_or (optional_member (member_of (errorData r) ''error'') ''code'')
       (JString ''UNKNOWN_ERROR'')"

text \<open>The \<open>switch\<close> on the status, given the message as the \<open>Error\<close> constructor stored it.\<close>

definition status_switch :: "response \<Rightarrow> string \<Rightarrow> pixwell_error" where
  "status_switch r msg =
     (if status r = 401 then AuthenticationError msg
      else if status r = 429 then
        RateLimitError msg
          (case headers r ''retry-after'' of
             None \<Rightarrow> None
           | Some ra \<Rightarrow> if ra = [] then None else Some (parseInt ra))
      else if status r = 400 then ValidationError msg None
      else if status r = 500 \<or> status r = 502 \<or> status r = 503 then CaptureError msg
      else PixwellError msg (error_code r) (Some (status r)))"

text \<open>
  \<open>handleError\<close> never returns; its value here is what it throws. Reading
  \<open>errorData.error\<close> throws a \<open>TypeError\<close> when the body decoded to \<open>null\<close>, and so does
  the \<open>Error\<close> constructor (reached through every branch of the \<open>switch\<close>, after
  expressions that cannot throw) when the message cannot be converted to a string.
\<close>

definition handleError :: "response \<Rightarrow> js_exn" where
  "handleError r =
     (if errorData r = JNull then Thrown_Error ''TypeError'' null_property_message
      else
        case ToString (error_message r) of
          None \<Rightarrow> Thrown_Error ''TypeError'' not_primitive_message
        | Some msg \<Rightarrow> Thrown_Pixwell (status_switch r msg))"

subsection \<open>request\<close>

datatype payload = BufferData "byte list" | JsonData json

definition fetch_init :: "Pixwell \<Rightarrow> string \<Rightarrow> request_options \<Rightarrow> fetch_call" where
  "fetch_init self path options =
     \<lparr>url = baseUrl self @ path,
      init_method = req_method options,
      init_headers =
        [(''Authorization'', ''Bearer '' @ apiKey self),
         (''Content-Type'', ''application/json''),
         (''User-Agent'', ''pixwell-js/1.0.0'')],
      init_body = req_body options\<rparr>"

text \<open>Reading the body of a successful response, by \<open>responseType\<close>.\<close>

definition read_body :: "request_options \<Rightarrow> response \<Rightarrow> js_exn + payload" where
  "read_body options r =
     (if responseType options = arrayBuffer_type then
        (case arrayBuffer_result r of Inl ex \<Rightarrow> Inl ex | Inr bs \<Rightarrow> Inr (BufferData bs))
      else
        (case json_result r of Inl ex \<Rightarrow> Inl ex | Inr v \<Rightarrow> Inr (JsonData v)))"

text \<open>
  The \<open>try\<close> block, from the \<open>fetch\<close> on: what it returns or throws, and the world it
  leaves. When the timer aborted the call, \<open>fetch\<close> rejects with the \<open>AbortError\<close>.
\<close>

definition try_block ::
  "Pixwell \<Rightarrow> string \<Rightarrow> request_options \<Rightarrow> nat \<Rightarrow> transport \<Rightarrow> world \<Rightarrow>
     (js_exn + payload \<times> headers) \<times> world" where
  "try_block self path options timeoutId net w =
     (let w1 = do_fetch (fetch_init self path options) w in
      case net (fetch_init self path options) of
        Aborted \<Rightarrow> (Inl AbortError, timer_fires timeoutId w1)
      | Rejects ex \<Rightarrow> (Inl ex, w1)
      | Resolves r \<Rightarrow>
          (let w2 = clearTimeout timeoutId w1 in
           if \<not> ok r then (Inl (handleError r), w2)
           else
             case read_body options r of
               Inl ex \<Rightarrow> (Inl ex, w2)
             | Inr d \<Rightarrow> (Inr (d, headers r), w2)))"

text \<open>The \<open>catch\<close> block after its \<open>clearTimeout\<close>: the error the call raises.\<close>

definition catch_block :: "Pixwell \<Rightarrow> js_exn \<Rightarrow> pixwell_error" where
  "catch_block self ex =
     (case ex of
        Thrown_Pixwell e \<Rightarrow> e
      | Thrown_Error nm msg \<Rightarrow>
          if nm = ''AbortError''
          then NetworkError (''Request timed out after '' @ Number_toString (timeout self) @ ''ms'')
          else NetworkError msg
      | Thrown_Other \<Rightarrow> NetworkError ''Unknown error occurred'')"

definition request ::
  "Pixwell \<Rightarrow> string \<Rightarrow> request_options \<Rightarrow> transport \<Rightarrow> world \<Rightarrow>
     (pixwell_error + payload \<times> headers) \<times> world" where
  "request self path options net w =
     (case setTimeout (timeout self) w of
        (timeoutId, w0) \<Rightarrow>
          (case try_block self path options timeoutId net w0 of
             (Inr res, w1) \<Rightarrow> (Inr res, w1)
           | (Inl ex, w1) \<Rightarrow> (Inl (catch_block self ex), clearTimeout timeoutId w1)))"

subsection \<open>The public operations\<close>

text \<open>\<open>ScreenshotResponse\<close>; \<open>size_bytes\<close> is its field \<open>size\<close>.\<close>

record ScreenshotResponse =
  data :: "byte list"
  contentType :: string
  size_bytes :: nat
  durationMs :: jsnum
  cached :: bool

text \<open>
  The bytes of the payload; \<open>request\<close> with \<open>responseType\<close> \<open>arrayBuffer\<close> returns no
  other kind (lemma \<open>request_arrayBuffer_payload\<close>).
\<close>

fun buffer_of :: "payload \<Rightarrow> byte list" where
  "buffer_of (BufferData bs) = bs"
| "buffer_of (JsonData v) = []"

text \<open>
  \<open>screenshot\<close>; \<open>options_json\<close> is the text \<open>JSON.stringify(options)\<close> gave.
\<close>

definition screenshot ::
  "Pixwell \<Rightarrow> string \<Rightarrow> transport \<Rightarrow> world \<Rightarrow> (pixwell_error + ScreenshotResponse) \<times> world" where
  "screenshot self options_json net w =
     (case request self ''/api/v1/screenshot''
             \<lparr>req_method = POST, req_body = Some options_json, responseType = arrayBuffer_type\<rparr>
             net w of
        (Inl e, w1) \<Rightarrow> (Inl e, w1)
      | (Inr (d, hs), w1) \<Rightarrow>
          (Inr \<lparr>data = buffer_of d,
                contentType =
                  (case hs ''content-type'' of None \<Rightarrow> ''application/octet-stream'' | Some v \<Rightarrow> v),
                size_bytes = length (buffer_of d),
                durationMs = parseInt (case hs ''x-duration-ms'' of None \<Rightarrow> ''0'' | Some v \<Rightarrow> v),
                cached = (hs ''x-cache'' = Some ''HIT'')\<rparr>,
           w1))"

definition batch ::
  "Pixwell \<Rightarrow> string \<Rightarrow> transport \<Rightarrow> world \<Rightarrow> (pixwell_error + payload) \<times> world" where
  "batch self options_json net w =
     (case request self ''/api/v1/batch''
             \<lparr>req_method = POST, req_body = Some options_json, responseType = json_type\<rparr>
             net w of
        (Inl e, w1) \<Rightarrow> (Inl e, w1)
      | (Inr (d, hs), w1) \<Rightarrow> (Inr d, w1))"

definition usage ::
  "Pixwell \<Rightarrow> transport \<Rightarrow> world \<Rightarrow> (pixwell_error + payload) \<times> world" where
  "usage self net w =
     (case request self ''/api/v1/usage''
             \<lparr>req_method = GET, req_body = None, responseType = json_type\<rparr>
             net w of
        (Inl e, w1) \<Rightarrow> (Inl e, w1)
      | (Inr (d, hs), w1) \<Rightarrow> (Inr d, w1))"

section \<open>Example inputs\<close>

text \<open>A transport that settles every call the same way, a client, and a world with no timer.\<close>

definition always :: "fetch_outcome \<Rightarrow> transport" where
  "always out = (\<lambda>c. out)"

definition example_client :: Pixwell where
  "example_client = \<lparr>apiKey = ''sk_test'', baseUrl = DEFAULT_BASE_URL, timeout = 50\<rparr>"

definition fresh_world :: world where
  "fresh_world = \<lparr>timers = [], next_timer = 0, events = []\<rparr>"

definition usage_request :: request_options where
  "usage_request = \<lparr>req_method = GET, req_body = None, responseType = json_type\<rparr>"

definition error_response :: "int \<Rightarrow> (string \<times> string) list \<Rightarrow> js_exn + json \<Rightarrow> response" where
  "error_response st hs body =
     \<lparr>status = st, headers = map_of hs, json_result = body, arrayBuffer_result = Inr []\<rparr>"

definition error_body :: "(string \<times> json) list \<Rightarrow> js_exn + json" where
  "error_body props = Inr (JObject [(''error'', JObject props)])"

definition screenshot_request :: "string \<Rightarrow> request_options" where
  "screenshot_request options_json =
     \<lparr>req_method = POST, req_body = Some options_json, responseType = arrayBuffer_type\<rparr>"

definition image_response :: "(string \<times> string) list \<Rightarrow> byte list \<Rightarrow> response" where
  "image_response hs bs =
     \<lparr>status = 200, headers = map_of hs, json_result = Inl (Thrown_Error ''SyntaxError'' ''Unexpected token''),
      arrayBuffer_result = Inr bs\<rparr>"

section \<open>How a call of request ends\<close>

lemmas example_defs = always_def example_client_def fresh_world_def usage_request_def
  error_response_def error_body_def

lemmas decode_defs = errorData_def error_message_def error_code_def optional_member_def
  nullish_or_def

lemma request_Aborted:
  "net (fetch_init self path options) = Aborted \<Longrightarrow>
   request self path options net w =
     (Inl (NetworkError (''Request timed out after '' @ Number_toString (timeout self) @ ''ms'')),
      clearTimeout (next_timer w) (timer_fires (next_timer w)
        (do_fetch (fetch_init self path options) (snd (setTimeout (timeout self) w)))))"
  by (simp add: request_def try_block_def setTimeout_def catch_block_def AbortError_def Let_def)

lemma request_Rejects:
  "net (fetch_init self path options) = Rejects ex \<Longrightarrow>
   request self path options net w =
     (Inl (catch_block self ex),
      clearTimeout (next_timer w)
        (do_fetch (fetch_init self path options) (snd (setTimeout (timeout self) w))))"
  by (simp add: request_def try_block_def setTimeout_def Let_def)

lemma request_Resolves_not_ok:
  "net (fetch_init self path options) = Resolves r \<Longrightarrow> \<not> ok r \<Longrightarrow>
   request self path options net w =
     (Inl (catch_block self (handleError r)),
      clearTimeout (next_timer w) (clearTimeout (next_timer w)
        (do_fetch (fetch_init self path options) (snd (setTimeout (timeout self) w)))))"
  by (simp add: request_def try_block_def setTimeout_def Let_def)

lemma request_Resolves_ok:
  "net (fetch_init self path options) = Resolves r \<Longrightarrow> ok r \<Longrightarrow>
   request self path options net w =
     (case read_body options r of
        Inl ex \<Rightarrow>
          (Inl (catch_block self ex),
           clearTimeout (next_timer w) (clearTimeout (next_timer w)
             (do_fetch (fetch_init self path options) (snd (setTimeout (timeout self) w)))))
      | Inr d \<Rightarrow>
          (Inr (d, headers r),
           clearTimeout (next_timer w)
             (do_fetch (fetch_init self path options) (snd (setTimeout (timeout self) w)))))"
  by (simp add: request_def try_block_def setTimeout_def Let_def split: sum.splits)

lemmas error_defs = PixwellError_def AuthenticationError_def RateLimitError_def
  ValidationError_def CaptureError_def NetworkError_def

lemma request_not_ok_raises:
  "net (fetch_init self path options) = Resolves r \<Longrightarrow> \<not> ok r \<Longrightarrow>
   fst (request self path options net w) = Inl (catch_block self (handleError r))"
  by (simp add: request_Resolves_not_ok)

lemma catch_handleError:
  "catch_block self (handleError r) =
     (if errorData r = JNull then NetworkError null_property_message
      else case ToString (error_message r) of
             None \<Rightarrow> NetworkError not_primitive_message
           | Some msg \<Rightarrow> status_switch r msg)"
  by (simp add: catch_block_def handleError_def split: option.splits)

lemma status_switch_proto:
  "proto (status_switch r msg) =
     (if status r = 401 then AuthenticationErrorC
      else if status r = 429 then RateLimitErrorC
      else if status r = 400 then ValidationErrorC
      else if status r = 500 \<or> status r = 502 \<or> status r = 503 then CaptureErrorC
      else PixwellErrorC)"
  by (simp add: status_switch_def error_defs)

lemma status_switch_message: "message (status_switch r msg) = msg"
  by (simp add: status_switch_def error_defs)

lemma request_world:
  "\<exists>evs. events (snd (request self path options net w)) =
     events w @ SetTimeout (next_timer w) (timeout self) # Fetch (fetch_init self path options) # evs
       @ [ClearTimeout (next_timer w)]"
proof (cases "net (fetch_init self path options)")
  case (Resolves r)
  then show ?thesis
    by (cases "ok r")
       (auto simp: request_Resolves_ok request_Resolves_not_ok clearTimeout_def do_fetch_def
          setTimeout_def split: sum.splits)
next
  case (Rejects ex)
  then show ?thesis by (simp add: request_Rejects clearTimeout_def do_fetch_def setTimeout_def)
next
  case Aborted
  then show ?thesis
    by (simp add: request_Aborted clearTimeout_def do_fetch_def setTimeout_def timer_fires_def)
qed

lemma request_timers:
  "timers (snd (request self path options net w)) = removeAll (next_timer w) (timers w)"
proof (cases "net (fetch_init self path options)")
  case (Resolves r)
  then show ?thesis
    by (cases "ok r")
       (auto simp: request_Resolves_ok request_Resolves_not_ok clearTimeout_def do_fetch_def
          setTimeout_def split: sum.splits)
next
  case (Rejects ex)
  then show ?thesis by (simp add: request_Rejects clearTimeout_def do_fetch_def setTimeout_def)
next
  case Aborted
  then show ?thesis
    by (simp add: request_Aborted clearTimeout_def do_fetch_def setTimeout_def timer_fires_def)
qed

section \<open>parseInt on header values\<close>

lemma parseInt_zero: "parseInt ''0'' = Num 0"
  by (simp add: parseInt_def isWhiteSpace_def isDigit_def digitsValue_def digitValue_def)

lemma parseInt_no_digit:
  "isWhiteSpace c = False \<Longrightarrow> isDigit c = False \<Longrightarrow> c \<noteq> CHR ''+'' \<Longrightarrow> c \<noteq> CHR ''-'' \<Longrightarrow> parseInt (c # s) = NaN"
  by (simp add: parseInt_def)

lemma parseInt_digits:
  "Z \<noteq> [] \<Longrightarrow> list_all isDigit Z \<Longrightarrow> parseInt Z = Num (digitsValue Z)"
proof -
  assume ne: "Z \<noteq> []" and ds: "list_all isDigit Z"
  have nws: "\<And>c. isDigit c \<Longrightarrow> \<not> isWhiteSpace c \<and> c \<noteq> CHR ''+'' \<and> c \<noteq> CHR ''-''"
    by (auto simp: isDigit_def isWhiteSpace_def)
  from ne ds have hd: "isDigit (hd Z)" by (cases Z) auto
  from ne hd nws have dw: "dropWhile isWhiteSpace Z = Z" by (cases Z) auto
  from ds have tw: "takeWhile isDigit Z = Z" by (simp add: list_all_iff)
  from ne hd nws show ?thesis by (simp add: parseInt_def Let_def dw tw)
qed

lemma request_arrayBuffer_payload:
  "request self path options net w = (Inr (d, hs), w1) \<Longrightarrow> responseType options = arrayBuffer_type \<Longrightarrow>
   \<exists>r bs. net (fetch_init self path options) = Resolves r \<and> ok r \<and>
          arrayBuffer_result r = Inr bs \<and> d = BufferData bs \<and> hs = headers r"
  by (cases "net (fetch_init self path options)")
     (auto simp: request_def try_block_def setTimeout_def read_body_def Let_def
        split: sum.splits if_splits)

lemma screenshot_succeeds:
  "net (fetch_init self ''/api/v1/screenshot''
          \<lparr>req_method = POST, req_body = Some options_json, responseType = arrayBuffer_type\<rparr>)
     = Resolves r \<Longrightarrow> ok r \<Longrightarrow> arrayBuffer_result r = Inr bs \<Longrightarrow>
   \<exists>res. fst (screenshot self options_json net w) = Inr res"
  by (simp add: screenshot_def request_Resolves_ok read_body_def)

section \<open>What the classifier does with a body it can use\<close>

lemma non_2xx_always_raises:
  "net (fetch_init self path options) = Resolves r \<Longrightarrow> \<not> ok r \<Longrightarrow>
   \<exists>e. fst (request self path options net w) = Inl e"
  by (simp add: request_not_ok_raises)

lemma non_2xx_classified:
  "net (fetch_init self path options) = Resolves r \<Longrightarrow> \<not> ok r \<Longrightarrow>
   errorData r \<noteq> JNull \<Longrightarrow> ToString (error_message r) = Some msg \<Longrightarrow>
   fst (request self path options net w) = Inl (status_switch r msg)"
  by (simp add: request_not_ok_raises catch_handleError)

lemma status_switch_generic:
  "status r \<notin> {401, 429, 400, 500, 502, 503} \<Longrightarrow>
   status_switch r msg = PixwellError msg (error_code r) (Some (status r))"
  by (simp add: status_switch_def)

lemma unconvertible_message_raises_network_error:
  "fst (request example_client ''/api/v1/usage'' usage_request
          (always (Resolves (error_response 500 []
             (error_body [(''message'', JObject [(''toString'', JNumber 1)])])))) fresh_world) =
     Inl (NetworkError not_primitive_message)"
  by (simp add: request_def try_block_def setTimeout_def clearTimeout_def do_fetch_def ok_def
      Let_def example_defs catch_block_def handleError_def decode_defs)

lemma undecodable_body_defaults:
  "json_result r = Inl ex \<Longrightarrow>
   errorData r = JObject [] \<and>
   error_message r = JString (''Request failed with status '' @ Number_toString (status r)) \<and>
   error_code r = JString ''UNKNOWN_ERROR''"
  by (simp add: decode_defs)

lemma decoded_message_and_code:
  "json_result r = Inr (JObject [(''error'', JObject props)]) \<Longrightarrow>
   error_message r =
     (case map_of props ''message'' of
        None \<Rightarrow> JString (''Request failed with status '' @ Number_toString (status r))
      | Some JNull \<Rightarrow> JString (''Request failed with status '' @ Number_toString (status r))
      | Some m \<Rightarrow> m) \<and>
   error_code r =
     (case map_of props ''code'' of
        None \<Rightarrow> JString ''UNKNOWN_ERROR''
      | Some JNull \<Rightarrow> JString ''UNKNOWN_ERROR''
      | Some c \<Rightarrow> c)"
  by (simp add: decode_defs split: option.splits json.splits)

section \<open>The fields of the raised errors\<close>

text \<open>
  C9. For a failed response with status 502 or 503 the call raises, and a capture error
  it raises has \<open>statusCode\<close> 500, not the status of the response. The capture error is
  what it raises whenever the decoded body is not \<open>null\<close> and the message can be
  converted to a string.
\<close>

theorem capture_error_statusCode_500:
  assumes "net (fetch_init self path options) = Resolves r"
      and "status r = 502 \<or> status r = 503"
  shows "\<exists>e. fst (request self path options net w) = Inl e \<and>
           (proto e = CaptureErrorC \<longrightarrow> statusCode e = Some 500 \<and> statusCode e \<noteq> Some (status r)) \<and>
           (errorData r \<noteq> JNull \<and> ToString (error_message r) \<noteq> None \<longrightarrow> proto e = CaptureErrorC)"
proof -
  from assms(2) have "\<not> ok r" by (auto simp: ok_def)
  with assms(1) have "fst (request self path options net w) = Inl (catch_block self (handleError r))"
    by (rule request_not_ok_raises)
  moreover from assms(2) have
    "proto (catch_block self (handleError r)) = CaptureErrorC \<longrightarrow>
       statusCode (catch_block self (handleError r)) = Some 500 \<and>
       statusCode (catch_block self (handleError r)) \<noteq> Some (status r)"
    by (auto simp: catch_handleError status_switch_def error_defs split: option.splits)
  moreover from assms(2) have
    "errorData r \<noteq> JNull \<and> ToString (error_message r) \<noteq> None \<longrightarrow>
       proto (catch_block self (handleError r)) = CaptureErrorC"
    by (auto simp: catch_handleError status_switch_proto split: option.splits)
  ultimately show ?thesis by blast
qed

theorem capture_error_statusCode_500_witness:
  "status (error_response 503 [] (error_body [(''message'', JString ''renderer down'')])) = 503 \<and>
   (\<exists>e. fst (request example_client ''/api/v1/usage'' usage_request
              (always (Resolves (error_response 503 []
                 (error_body [(''message'', JString ''renderer down'')])))) fresh_world) = Inl e \<and>
        proto e = CaptureErrorC \<and> statusCode e = Some 500)"
proof -
  let ?r = "error_response 503 [] (error_body [(''message'', JString ''renderer down'')])"
  have h1: "always (Resolves ?r) (fetch_init example_client ''/api/v1/usage'' usage_request) = Resolves ?r"
    by (simp add: always_def)
  have h2: "status ?r = 502 \<or> status ?r = 503"
    by (simp add: error_response_def)
  have h3: "errorData ?r \<noteq> JNull \<and> ToString (error_message ?r) \<noteq> None"
    by (simp add: error_response_def error_body_def decode_defs)
  from capture_error_statusCode_500 [where net = "always (Resolves ?r)" and self = example_client
      and path = "''/api/v1/usage''" and options = usage_request and r = "?r"
      and w = fresh_world, OF h1 h2] h3
  show ?thesis
    by (auto simp: error_response_def)
qed

text \<open>
  C10. For a failed response, the \<open>code\<close> of a specialised error is the constant of
  its class, whatever code the body carried; an error of the base class carries the
  decoded code (\<open>error_code\<close>: the body's code, or \<open>UNKNOWN_ERROR\<close>), and is raised only
  for a status outside 401, 429, 400, 500, 502 and 503. The class follows the status
  whenever the decoded body is not \<open>null\<close> and the message can be converted to a string.
\<close>

theorem variant_code_is_fixed:
  assumes "net (fetch_init self path options) = Resolves r" and "\<not> ok r"
  shows "\<exists>e. fst (request self path options net w) = Inl e \<and>
           (proto e = AuthenticationErrorC \<longrightarrow> code e = JString ''AUTHENTICATION_ERROR'') \<and>
           (proto e = RateLimitErrorC \<longrightarrow> code e = JString ''RATE_LIMIT_ERROR'') \<and>
           (proto e = ValidationErrorC \<longrightarrow> code e = JString ''VALIDATION_ERROR'') \<and>
           (proto e = CaptureErrorC \<longrightarrow> code e = JString ''CAPTURE_ERROR'') \<and>
           (proto e = PixwellErrorC \<longrightarrow>
              code e = error_code r \<and> status r \<notin> {401, 429, 400, 500, 502, 503}) \<and>
           (errorData r \<noteq> JNull \<and> ToString (error_message r) \<noteq> None \<longrightarrow>
              proto e =
                (if status r = 401 then AuthenticationErrorC
                 else if status r = 429 then RateLimitErrorC
                 else if status r = 400 then ValidationErrorC
                 else if status r = 500 \<or> status r = 502 \<or> status r = 503 then CaptureErrorC
                 else PixwellErrorC))"
proof -
  let ?e = "catch_block self (handleError r)"
  have raised: "fst (request self path options net w) = Inl ?e"
    using assms by (rule request_not_ok_raises)
  have fixed:
    "(proto ?e = AuthenticationErrorC \<longrightarrow> code ?e = JString ''AUTHENTICATION_ERROR'') \<and>
     (proto ?e = RateLimitErrorC \<longrightarrow> code ?e = JString ''RATE_LIMIT_ERROR'') \<and>
     (proto ?e = ValidationErrorC \<longrightarrow> code ?e = JString ''VALIDATION_ERROR'') \<and>
     (proto ?e = CaptureErrorC \<longrightarrow> code ?e = JString ''CAPTURE_ERROR'')"
    by (simp add: catch_handleError status_switch_def error_defs split: option.splits)
  have generic:
    "proto ?e = PixwellErrorC \<longrightarrow>
       code ?e = error_code r \<and> status r \<notin> {401, 429, 400, 500, 502, 503}"
    by (simp add: catch_handleError status_switch_def error_defs split: option.splits)
  have by_status:
    "errorData r \<noteq> JNull \<and> ToString (error_message r) \<noteq> None \<longrightarrow>
       proto ?e =
         (if status r = 401 then AuthenticationErrorC
          else if status r = 429 then RateLimitErrorC
          else if status r = 400 then ValidationErrorC
          else if status r = 500 \<or> status r = 502 \<or> status r = 503 then CaptureErrorC
          else PixwellErrorC)"
    by (auto simp: catch_handleError status_switch_proto)
  from raised fixed generic by_status show ?thesis by blast
qed

theorem variant_code_is_fixed_witness:
  "\<not> ok (error_response 401 []
       (error_body [(''code'', JString ''KEY_REVOKED''), (''message'', JString ''bad key'')])) \<and>
   (\<exists>e. fst (request example_client ''/api/v1/usage'' usage_request
              (always (Resolves (error_response 401 []
                 (error_body [(''code'', JString ''KEY_REVOKED''), (''message'', JString ''bad key'')]))))
              fresh_world) = Inl e \<and>
        proto e = AuthenticationErrorC \<and> code e = JString ''AUTHENTICATION_ERROR'')"
proof -
  let ?r = "error_response 401 []
       (error_body [(''code'', JString ''KEY_REVOKED''), (''message'', JString ''bad key'')])"
  have h1: "always (Resolves ?r) (fetch_init example_client ''/api/v1/usage'' usage_request) = Resolves ?r"
    by (simp add: always_def)
  have h2: "\<not> ok ?r"
    by (simp add: ok_def error_response_def)
  have h3: "errorData ?r \<noteq> JNull \<and> ToString (error_message ?r) \<noteq> None"
    by (simp add: error_response_def error_body_def decode_defs)
  have h4: "status ?r = 401"
    by (simp add: error_response_def)
  from variant_code_is_fixed [where net = "always (Resolves ?r)" and self = example_client
      and path = "''/api/v1/usage''" and options = usage_request and r = "?r"
      and w = fresh_world, OF h1 h2] h3 h4 h2
  show ?thesis
    by auto
qed

section \<open>Construction\<close>

text \<open>
  C2. The constructor leaves the world as it found it (no \<open>fetch\<close>, no timer), and with
  a credential that is missing or empty it raises the validation error.
\<close>

theorem constructor_rejects_missing_apiKey:
  "snd (Pixwell_constructor options w) = w \<and>
   (opt_apiKey options = None \<or> opt_apiKey options = Some [] \<longrightarrow>
      fst (Pixwell_constructor options w) =
        Inl (ValidationError ''API key is required'' (Some ''apiKey'')) \<and>
      proto (ValidationError ''API key is required'' (Some ''apiKey'')) = ValidationErrorC)"
proof (intro conjI impI)
  show "snd (Pixwell_constructor options w) = w"
    by (simp add: Pixwell_constructor_def split: option.splits)
next
  assume "opt_apiKey options = None \<or> opt_apiKey options = Some []"
  then show "fst (Pixwell_constructor options w) =
        Inl (ValidationError ''API key is required'' (Some ''apiKey''))"
    by (auto simp: Pixwell_constructor_def)
next
  show "proto (ValidationError ''API key is required'' (Some ''apiKey'')) = ValidationErrorC"
    by (simp add: ValidationError_def PixwellError_def)
qed

theorem constructor_rejects_missing_apiKey_witness:
  "opt_apiKey \<lparr>opt_apiKey = Some [], opt_baseUrl = None, opt_timeout = None\<rparr> = Some [] \<and>
   Pixwell_constructor \<lparr>opt_apiKey = Some [], opt_baseUrl = None, opt_timeout = None\<rparr> fresh_world =
     (Inl (ValidationError ''API key is required'' (Some ''apiKey'')), fresh_world)"
  using constructor_rejects_missing_apiKey [of "\<lparr>opt_apiKey = Some [], opt_baseUrl = None, opt_timeout = None\<rparr>" fresh_world]
  by (simp add: prod_eq_iff)

section \<open>Propagation, timeout and the timer\<close>

text \<open>
  C6. A typed error thrown inside the \<open>try\<close> block (by \<open>handleError\<close>, or by the
  transport) is the error the call raises, unchanged; and when the timer aborted the call
  the error raised is the timeout error, not a network error made from the abort's own
  message.
\<close>

theorem typed_errors_propagate_unchanged:
  "(net (fetch_init self path options) = Resolves r \<and> \<not> ok r \<and> handleError r = Thrown_Pixwell e \<longrightarrow>
      fst (request self path options net w) = Inl e) \<and>
   (net (fetch_init self path options) = Rejects (Thrown_Pixwell e) \<longrightarrow>
      fst (request self path options net w) = Inl e) \<and>
   (net (fetch_init self path options) = Aborted \<longrightarrow>
      fst (request self path options net w) =
        Inl (NetworkError (''Request timed out after '' @ Number_toString (timeout self) @ ''ms'')))"
proof (intro conjI impI)
  assume "net (fetch_init self path options) = Resolves r \<and> \<not> ok r \<and>
          handleError r = Thrown_Pixwell e"
  then have "fst (request self path options net w) = Inl (catch_block self (Thrown_Pixwell e))"
    by (simp add: request_Resolves_not_ok)
  then show "fst (request self path options net w) = Inl e"
    by (simp add: catch_block_def)
next
  assume "net (fetch_init self path options) = Rejects (Thrown_Pixwell e)"
  then have "fst (request self path options net w) = Inl (catch_block self (Thrown_Pixwell e))"
    by (simp add: request_Rejects)
  then show "fst (request self path options net w) = Inl e"
    by (simp add: catch_block_def)
next
  assume "net (fetch_init self path options) = Aborted"
  then show "fst (request self path options net w) =
        Inl (NetworkError (''Request timed out after '' @ Number_toString (timeout self) @ ''ms''))"
    by (simp add: request_Aborted)
qed

theorem typed_errors_propagate_unchanged_witness:
  "\<not> ok (error_response 400 [] (error_body [(''message'', JString ''url is required'')])) \<and>
   handleError (error_response 400 [] (error_body [(''message'', JString ''url is required'')])) =
     Thrown_Pixwell (ValidationError ''url is required'' None) \<and>
   fst (request example_client ''/api/v1/usage'' usage_request
          (always (Resolves (error_response 400 []
             (error_body [(''message'', JString ''url is required'')])))) fresh_world) =
     Inl (ValidationError ''url is required'' None)"
proof -
  let ?r = "error_response 400 [] (error_body [(''message'', JString ''url is required'')])"
  have h1: "always (Resolves ?r) (fetch_init example_client ''/api/v1/usage'' usage_request) = Resolves ?r"
    by (simp add: always_def)
  have h2: "\<not> ok ?r"
    by (simp add: ok_def error_response_def)
  have h3: "handleError ?r = Thrown_Pixwell (ValidationError ''url is required'' None)"
    by (simp add: handleError_def status_switch_def error_response_def error_body_def decode_defs)
  from typed_errors_propagate_unchanged [where net = "always (Resolves ?r)" and self = example_client
      and path = "''/api/v1/usage''" and options = usage_request and r = "?r"
      and e = "ValidationError ''url is required'' None" and w = fresh_world] h1 h2 h3
  show ?thesis by simp
qed

text \<open>
  C7. When the timeout timer aborted the call in flight, the call raises a network error
  whose message names the configured timeout, the delay the timer was armed with.
\<close>

theorem timeout_abort_raises_network_error:
  assumes "net (fetch_init self path options) = Aborted"
  shows "fst (request self path options net w) =
           Inl (NetworkError (''Request timed out after '' @ Number_toString (timeout self) @ ''ms'')) \<and>
         proto (NetworkError (''Request timed out after '' @ Number_toString (timeout self) @ ''ms''))
           = NetworkErrorC \<and>
         SetTimeout (next_timer w) (timeout self) \<in> set (events (snd (request self path options net w)))"
  using assms
  by (simp add: request_Aborted NetworkError_def PixwellError_def clearTimeout_def timer_fires_def
      do_fetch_def setTimeout_def)

theorem timeout_abort_raises_network_error_witness:
  "always Aborted (fetch_init example_client ''/api/v1/screenshot'' (screenshot_request ''{}'')) = Aborted \<and>
   timeout example_client = 50 \<and>
   fst (request example_client ''/api/v1/screenshot'' (screenshot_request ''{}'') (always Aborted)
          fresh_world) = Inl (NetworkError ''Request timed out after 50ms'')"
proof -
  have h: "always Aborted (fetch_init example_client ''/api/v1/screenshot'' (screenshot_request ''{}''))
             = Aborted"
    by (simp add: always_def)
  have t: "Number_toString (timeout example_client) = ''50''"
    by (simp add: example_client_def Number_toString_def decimal.simps)
  from timeout_abort_raises_network_error [where net = "always Aborted" and self = example_client
      and path = "''/api/v1/screenshot''" and options = "screenshot_request ''{}''"
      and w = fresh_world, OF h] h t
  show ?thesis by (simp add: example_client_def)
qed

text \<open>
  C8. However the call ends (a result, an HTTP error, a rejection of the transport, the
  abort, a body that cannot be read), the timer it armed is not pending afterwards, no
  other timer was touched, and the last thing the call did was \<open>clearTimeout\<close> of its
  timer.
\<close>

theorem timer_cleared_on_every_path:
  "next_timer w \<notin> set (timers (snd (request self path options net w))) \<and>
   timers (snd (request self path options net w)) = removeAll (next_timer w) (timers w) \<and>
   (\<exists>evs. events (snd (request self path options net w)) =
      events w @ SetTimeout (next_timer w) (timeout self) # Fetch (fetch_init self path options) # evs
        @ [ClearTimeout (next_timer w)])"
  using request_world [of self path options net w] by (simp add: request_timers)

section \<open>The capture result\<close>

text \<open>
  C3, as the code has it. A capture call that returns a result got a response with a 2xx
  status whose bytes it could read, and the result has: those bytes; \<open>contentType\<close> the
  \<open>content-type\<close> header, or \<open>application/octet-stream\<close> without one; \<open>size\<close> the number
  of bytes; \<open>durationMs\<close> the value \<open>parseInt\<close> gives for the \<open>x-duration-ms\<close> header
  when there is one (\<open>NaN\<close> when its text starts with no decimal integer), and 0 when
  there is none; \<open>cached\<close> true exactly when the \<open>x-cache\<close> header is \<open>HIT\<close>.
\<close>

theorem screenshot_result_fields:
  assumes "screenshot self options_json net w = (Inr res, w1)"
  shows "\<exists>r bs. net (fetch_init self ''/api/v1/screenshot''
                     \<lparr>req_method = POST, req_body = Some options_json,
                      responseType = arrayBuffer_type\<rparr>) = Resolves r \<and>
           ok r \<and> arrayBuffer_result r = Inr bs \<and>
           data res = bs \<and>
           contentType res =
             (case headers r ''content-type'' of None \<Rightarrow> ''application/octet-stream'' | Some v \<Rightarrow> v) \<and>
           size_bytes res = length bs \<and>
           durationMs res =
             (case headers r ''x-duration-ms'' of None \<Rightarrow> Num 0 | Some v \<Rightarrow> parseInt v) \<and>
           cached res = (headers r ''x-cache'' = Some ''HIT'')"
proof -
  let ?opts = "\<lparr>req_method = POST, req_body = Some options_json, responseType = arrayBuffer_type\<rparr>"
  from assms obtain d hs where
    req: "request self ''/api/v1/screenshot'' ?opts net w = (Inr (d, hs), w1)" and
    res: "res = \<lparr>data = buffer_of d,
                 contentType =
                   (case hs ''content-type'' of None \<Rightarrow> ''application/octet-stream'' | Some v \<Rightarrow> v),
                 size_bytes = length (buffer_of d),
                 durationMs = parseInt (case hs ''x-duration-ms'' of None \<Rightarrow> ''0'' | Some v \<Rightarrow> v),
                 cached = (hs ''x-cache'' = Some ''HIT'')\<rparr>"
    by (auto simp: screenshot_def split: prod.splits sum.splits)
  from request_arrayBuffer_payload [OF req] obtain r bs where
    r: "net (fetch_init self ''/api/v1/screenshot'' ?opts) = Resolves r" "ok r"
       "arrayBuffer_result r = Inr bs" "d = BufferData bs" "hs = headers r"
    by auto
  have dur: "parseInt (case headers r ''x-duration-ms'' of None \<Rightarrow> ''0'' | Some v \<Rightarrow> v) =
             (case headers r ''x-duration-ms'' of None \<Rightarrow> Num 0 | Some v \<Rightarrow> parseInt v)"
    by (simp add: parseInt_zero split: option.splits)
  from r res dur show ?thesis by simp
qed

theorem screenshot_result_fields_witness:
  "screenshot example_client ''{}''
     (always (Resolves (image_response
        [(''content-type'', ''image/png''), (''x-duration-ms'', ''512''), (''x-cache'', ''HIT'')]
        [0x89, 0x50, 0x4E, 0x47]))) fresh_world =
   (Inr \<lparr>data = [0x89, 0x50, 0x4E, 0x47], contentType = ''image/png'', size_bytes = 4,
          durationMs = Num 512, cached = True\<rparr>,
    \<lparr>timers = [], next_timer = 1,
      events = [SetTimeout 0 50,
                Fetch (fetch_init example_client ''/api/v1/screenshot'' (screenshot_request ''{}'')),
                ClearTimeout 0]\<rparr>)"
proof -
  let ?r = "image_response
        [(''content-type'', ''image/png''), (''x-duration-ms'', ''512''), (''x-cache'', ''HIT'')]
        [0x89, 0x50, 0x4E, 0x47]"
  let ?res = "\<lparr>data = [0x89, 0x50, 0x4E, 0x47], contentType = ''image/png'', size_bytes = 4,
          durationMs = Num 512, cached = True\<rparr>"
  let ?w1 = "\<lparr>timers = [], next_timer = 1,
      events = [SetTimeout 0 50,
                Fetch (fetch_init example_client ''/api/v1/screenshot'' (screenshot_request ''{}'')),
                ClearTimeout 0]\<rparr>"
  have run: "screenshot example_client ''{}'' (always (Resolves ?r)) fresh_world = (Inr ?res, ?w1)"
    by (simp add: screenshot_def request_def try_block_def read_body_def setTimeout_def
        clearTimeout_def do_fetch_def ok_def Let_def example_defs image_response_def
        screenshot_request_def parseInt_def isWhiteSpace_def isDigit_def digitsValue_def
        digitValue_def)
  from screenshot_result_fields [OF run] show ?thesis
    by (simp add: run)
qed

text \<open>
  C3 as stated fails: with the header \<open>x-duration-ms: n/a\<close> the result's \<open>durationMs\<close> is
  \<open>NaN\<close>, not 0.
\<close>

theorem durationMs_not_numeric_is_NaN:
  "fst (screenshot example_client ''{}''
          (always (Resolves (image_response [(''x-duration-ms'', ''n/a'')] [0x89, 0x50, 0x4E, 0x47])))
          fresh_world) =
     Inr \<lparr>data = [0x89, 0x50, 0x4E, 0x47], contentType = ''application/octet-stream'',
           size_bytes = 4, durationMs = NaN, cached = False\<rparr> \<and>
   parseInt ''n/a'' = NaN \<and> NaN \<noteq> Num 0"
  by (simp add: screenshot_def request_def try_block_def read_body_def setTimeout_def
      clearTimeout_def do_fetch_def ok_def Let_def example_defs image_response_def
      parseInt_def isWhiteSpace_def isDigit_def)

section \<open>The retry-after field\<close>

text \<open>
  C4, as the code has it. For a response with status 429 the call raises, and a
  rate-limit error it raises has \<open>retryAfter\<close> undefined when the \<open>retry-after\<close> header is
  absent or empty, and otherwise the value \<open>parseInt\<close> gives for it (\<open>NaN\<close> when its
  text starts with no decimal integer). The rate-limit error is what it raises whenever
  the decoded body is not \<open>null\<close> and the message can be converted to a string.
\<close>

theorem rate_limit_retryAfter:
  assumes "net (fetch_init self path options) = Resolves r" and "status r = 429"
  shows "\<exists>e. fst (request self path options net w) = Inl e \<and>
           (proto e = RateLimitErrorC \<longrightarrow>
              retryAfter e =
                (case headers r ''retry-after'' of
                   None \<Rightarrow> None
                 | Some v \<Rightarrow> if v = [] then None else Some (parseInt v))) \<and>
           (errorData r \<noteq> JNull \<and> ToString (error_message r) \<noteq> None \<longrightarrow>
              proto e = RateLimitErrorC)"
proof -
  let ?e = "catch_block self (handleError r)"
  from assms(2) have "\<not> ok r" by (simp add: ok_def)
  with assms(1) have raised: "fst (request self path options net w) = Inl ?e"
    by (rule request_not_ok_raises)
  from assms(2) have field:
    "proto ?e = RateLimitErrorC \<longrightarrow>
       retryAfter ?e =
         (case headers r ''retry-after'' of
            None \<Rightarrow> None
          | Some v \<Rightarrow> if v = [] then None else Some (parseInt v))"
    by (simp add: catch_handleError status_switch_def error_defs split: option.splits)
  from assms(2) have cls:
    "errorData r \<noteq> JNull \<and> ToString (error_message r) \<noteq> None \<longrightarrow> proto ?e = RateLimitErrorC"
    by (auto simp: catch_handleError status_switch_proto)
  from raised field cls show ?thesis by blast
qed

theorem rate_limit_retryAfter_witness:
  "status (error_response 429 [(''retry-after'', ''30'')]
       (error_body [(''message'', JString ''Slow down'')])) = 429 \<and>
   (\<exists>e. fst (request example_client ''/api/v1/usage'' usage_request
              (always (Resolves (error_response 429 [(''retry-after'', ''30'')]
                 (error_body [(''message'', JString ''Slow down'')])))) fresh_world) = Inl e \<and>
        proto e = RateLimitErrorC \<and> retryAfter e = Some (Num 30))"
proof -
  let ?r = "error_response 429 [(''retry-after'', ''30'')]
       (error_body [(''message'', JString ''Slow down'')])"
  have h1: "always (Resolves ?r) (fetch_init example_client ''/api/v1/usage'' usage_request) = Resolves ?r"
    by (simp add: always_def)
  have h2: "status ?r = 429"
    by (simp add: error_response_def)
  have h3: "errorData ?r \<noteq> JNull \<and> ToString (error_message ?r) \<noteq> None"
    by (simp add: error_response_def error_body_def decode_defs)
  have h4: "(case headers ?r ''retry-after'' of
               None \<Rightarrow> None
             | Some v \<Rightarrow> if v = [] then None else Some (parseInt v)) = Some (Num 30)"
    by (simp add: error_response_def parseInt_def isWhiteSpace_def isDigit_def digitsValue_def
        digitValue_def)
  from rate_limit_retryAfter [where net = "always (Resolves ?r)" and self = example_client
      and path = "''/api/v1/usage''" and options = usage_request and r = "?r"
      and w = fresh_world, OF h1 h2] h3 h4 h2
  show ?thesis by auto
qed

text \<open>
  C4 as stated fails: with a \<open>retry-after\<close> header that holds an HTTP date the field is
  \<open>NaN\<close>, not undefined.
\<close>

theorem retryAfter_not_numeric_is_NaN:
  "fst (request example_client ''/api/v1/usage'' usage_request
          (always (Resolves (error_response 429
             [(''retry-after'', ''Wed, 21 Oct 2015 07:28:00 GMT'')]
             (error_body [(''message'', JString ''Slow down'')])))) fresh_world) =
     Inl (RateLimitError ''Slow down'' (Some NaN)) \<and>
   parseInt ''Wed, 21 Oct 2015 07:28:00 GMT'' = NaN \<and>
   retryAfter (RateLimitError ''Slow down'' (Some NaN)) \<noteq> None"
  by (simp add: request_def try_block_def setTimeout_def clearTimeout_def do_fetch_def ok_def
      Let_def example_defs catch_block_def handleError_def status_switch_def decode_defs
      error_defs parseInt_def isWhiteSpace_def isDigit_def)

section \<open>A body that decodes to null\<close>

text \<open>
  C1. A 401 response whose body is the JSON text \<open>null\<close>: \<open>response.json()\<close> resolves,
  reading \<open>errorData.error\<close> throws a \<open>TypeError\<close>, and the \<open>catch\<close> block of \<open>request\<close>
  turns it into a network error with no status code. No authentication error is raised.
\<close>

theorem null_body_401_raises_network_error:
  "fst (request example_client ''/api/v1/usage'' usage_request
          (always (Resolves (error_response 401 [] (Inr JNull)))) fresh_world) =
     Inl (NetworkError null_property_message) \<and>
   proto (NetworkError null_property_message) = NetworkErrorC \<and>
   statusCode (NetworkError null_property_message) = None"
  by (simp add: request_def try_block_def setTimeout_def clearTimeout_def do_fetch_def ok_def
      Let_def example_defs catch_block_def handleError_def errorData_def error_defs)

text \<open>
  C5. A 404 response with the same body: the message of the error raised is the engine's
  text for the \<open>TypeError\<close>, not the generic message that names the status.
\<close>

theorem null_body_message_is_engine_text:
  "fst (request example_client ''/api/v1/usage'' usage_request
          (always (Resolves (error_response 404 [] (Inr JNull)))) fresh_world) =
     Inl (NetworkError null_property_message) \<and>
   message (NetworkError null_property_message) \<noteq> ''Request failed with status 404''"
  by (simp add: request_def try_block_def setTimeout_def clearTimeout_def do_fetch_def ok_def
      Let_def example_defs catch_block_def handleError_def errorData_def error_defs
      null_property_message_def)

end
